theory Spec2Isabelle
  imports Complex_Main "HOL-Library.Multiset"
begin

section \<open>Feed assembly of jadio\_feeder/podcast.py\<close>

text \<open>
  A shallow embedding of \<^verbatim>\<open>src/jadio_feeder/podcast.py\<close>. Python exceptions are values of
  \<open>error\<close>; a function that may raise returns \<open>error + 'a\<close> with \<open>Inl\<close> for the exception.
  The file system, the media inspection library (mutagen), the URL helpers of urllib and
  Python's \<^verbatim>\<open>str\<close> on the two identifier types are collected in the record \<open>env\<close>.
\<close>

subsection \<open>Exceptions\<close>

datatype error = FileNotFoundError | ValueError | IndexError | MutagenError

subsection \<open>Paths (pathlib)\<close>

text \<open>
  A path is the list of its components. \<open>path_suffix\<close> follows \<^verbatim>\<open>PurePath.suffix\<close>: with
  \<^verbatim>\<open>i = name.rfind('.')\<close> the suffix is \<^verbatim>\<open>name[i:]\<close> when \<^verbatim>\<open>0 < i < len(name) - 1\<close> and the empty
  string otherwise.
\<close>

type_synonym path = "string list"

definition rfind :: "char \<Rightarrow> string \<Rightarrow> nat option" where
  "rfind c s =
     (let j = length (takeWhile (\<lambda>x. x \<noteq> c) (rev s))
      in if j = length s then None else Some (length s - 1 - j))"

definition path_name :: "path \<Rightarrow> string" where
  "path_name p = (if p = [] then [] else last p)"

definition path_suffix :: "path \<Rightarrow> string" where
  "path_suffix p =
     (let name = path_name p
      in case rfind (CHR ''.'') name of
           None \<Rightarrow> []
         | Some i \<Rightarrow> if 0 < i \<and> i + 1 < length name then drop i name else [])"


subsection \<open>The environment: file system and external libraries\<close>

text \<open>
  \<open>listdir d\<close> are the entry names of directory \<open>d\<close> in the order the directory scan yields
  them (empty when \<open>d\<close> does not exist). \<open>mp3_length\<close> and \<open>mp4_length\<close> stand for
  \<^verbatim>\<open>mutagen.mp3.MP3(path).info.length\<close> and \<^verbatim>\<open>mutagen.mp4.MP4(path).info.length\<close>, which are
  seconds as a fraction and may raise on an unreadable file. \<open>relpath\<close>, \<open>quote\<close> and
  \<open>urljoin\<close> are \<^verbatim>\<open>os.path.relpath\<close>, \<^verbatim>\<open>urllib.parse.quote\<close> and \<^verbatim>\<open>urllib.parse.urljoin\<close>.
  \<open>str_oid\<close> is \<^verbatim>\<open>str\<close> on the stored record's identifier (a bson ObjectId) and \<open>str_eid\<close>
  is \<^verbatim>\<open>str\<close> on a program's episode id.
\<close>

record ('i, 'e) env =
  str_oid :: "'i \<Rightarrow> string"
  str_eid :: "'e \<Rightarrow> string"
  listdir :: "path \<Rightarrow> string list"
  getsize :: "path \<Rightarrow> nat"
  mp3_length :: "path \<Rightarrow> error + rat"
  mp4_length :: "path \<Rightarrow> error + rat"
  relpath :: "path \<Rightarrow> path \<Rightarrow> string"
  quote :: "string \<Rightarrow> string"
  urljoin :: "string \<Rightarrow> string \<Rightarrow> string"

text \<open>A path exists when its last component is an entry of its parent directory.\<close>

definition path_exists :: "('i, 'e) env \<Rightarrow> path \<Rightarrow> bool" where
  "path_exists env p = (p = [] \<or> last p \<in> set (listdir env (butlast p)))"

text \<open>
  \<^verbatim>\<open>media_dir.glob("media.*")\<close>: the entries of the directory whose name starts with
  \<^verbatim>\<open>media.\<close> (the \<^verbatim>\<open>*\<close> also matches the empty string), in scan order.
\<close>

definition glob_media :: "('i, 'e) env \<Rightarrow> path \<Rightarrow> path list" where
  "glob_media env d =
     map (\<lambda>n. d @ [n]) (filter (\<lambda>n. take 6 n = ''media.'') (listdir env d))"

subsection \<open>Media inspection and enclosure helpers\<close>

definition media_path_to_duration :: "('i, 'e) env \<Rightarrow> path \<Rightarrow> error + rat" where
  "media_path_to_duration env path =
     (if \<not> path_exists env path then Inl FileNotFoundError
      else if ''.mp3'' = path_suffix path then mp3_length env path
      else if ''.m4a'' = path_suffix path then mp4_length env path
      else if ''.mp4'' = path_suffix path then mp4_length env path
      else Inl ValueError)"

definition path_to_enclosure_url :: "('i, 'e) env \<Rightarrow> path \<Rightarrow> path \<Rightarrow> string \<Rightarrow> string" where
  "path_to_enclosure_url env path path_root base_url =
     urljoin env base_url (''media/'' @ quote env (relpath env path path_root))"

definition path_to_enclosure_length :: "('i, 'e) env \<Rightarrow> path \<Rightarrow> error + nat" where
  "path_to_enclosure_length env path =
     (if \<not> path_exists env path then Inl FileNotFoundError else Inr (getsize env path))"

definition path_to_enclosure_type :: "path \<Rightarrow> bool \<Rightarrow> error + string" where
  "path_to_enclosure_type path is_video =
     (if ''.mp3'' = path_suffix path then Inr ''audio/mpeg''
      else if ''.m4a'' = path_suffix path then Inr ''audio/x-m4a''
      else if ''.mp4'' = path_suffix path then
        Inr (if is_video then ''video/mp4'' else ''audio/x-m4a'')
      else if ''.mov'' = path_suffix path then Inr ''video/quicktime''
      else Inl ValueError)"

record Enclosure =
  enc_url :: string
  enc_length :: "nat option"
  enc_type :: "string option"

definition from_path ::
  "('i, 'e) env \<Rightarrow> path \<Rightarrow> bool \<Rightarrow> string \<Rightarrow> path \<Rightarrow> error + Enclosure" where
  "from_path env path is_video base_url media_root =
     (let u = path_to_enclosure_url env path media_root base_url
      in case path_to_enclosure_length env path of
           Inl e \<Rightarrow> Inl e
         | Inr n \<Rightarrow>
             (case path_to_enclosure_type path is_video of
                Inl e \<Rightarrow> Inl e
              | Inr t \<Rightarrow> Inr \<lparr>enc_url = u, enc_length = Some n, enc_type = Some t\<rparr>))"

subsection \<open>Programs, items and channels\<close>

text \<open>
  Modelled from the spec: the declaration of \<^verbatim>\<open>jadio.Program\<close> is not part of this
  repository. Following the data model of the specification, a program always carries a
  platform id, a station id, a show name, an episode id, an episode name, a datetime and the
  video flag, while the precomputed duration, the description, the information text, the
  url, the image url and the copyright may be absent (\<open>None\<close>). The types of the datetime
  \<open>'d\<close> and of the episode id \<open>'e\<close> are left open: the code only compares them (\<^verbatim>\<open>!=\<close>, and
  \<^verbatim>\<open><\<close> when sorting) and applies \<^verbatim>\<open>str\<close> to the episode id.
\<close>

record ('d, 'e) Program =
  platform_id :: string
  station_id :: string
  name :: string
  url :: "string option"
  description :: "string option"
  information :: "string option"
  copyright :: "string option"
  episode_id :: 'e
  episode_name :: string
  datetime :: 'd
  duration :: "int option"
  image_url :: "string option"
  is_video :: bool

datatype EpisodeType = FULL | TRAILER | BONUS

datatype ItunesType = EPISODIC | SERIAL

record ItunesCategory =
  cat :: "string option"
  sub :: "string option"

record 'd PodcastItem =
  title :: string
  enclosure :: Enclosure
  guid :: string
  pub_date :: "'d option"
  item_description :: "string option"
  itunes_duration :: "int option"
  link :: "string option"
  itunes_image :: "string option"
  itunes_explicit :: bool
  itunes_title :: "string option"
  itunes_episode :: "int option"
  itunes_season :: "int option"
  itunes_episode_type :: EpisodeType
  podcast_transcript :: "string option"
  itunes_block :: bool

text \<open>Python's \<^verbatim>\<open>a or b\<close> on optional strings: \<open>a\<close> unless it is \<open>None\<close> or empty.\<close>

definition or_str :: "string option \<Rightarrow> string option \<Rightarrow> string option" where
  "or_str a b = (case a of None \<Rightarrow> b | Some s \<Rightarrow> if s = [] then b else Some s)"

text \<open>\<^verbatim>\<open>int(x)\<close> truncates towards zero.\<close>

definition py_int :: "rat \<Rightarrow> int" where
  "py_int x = (if 0 \<le> x then \<lfloor>x\<rfloor> else \<lceil>x\<rceil>)"

text \<open>
  \<^verbatim>\<open>program.duration or _media_path_to_duration(media_path)\<close>: the inspector is only called
  when the precomputed duration is \<open>None\<close> or \<open>0\<close>.
\<close>

definition duration_or ::
  "int option \<Rightarrow> (error + rat) \<Rightarrow> error + rat" where
  "duration_or d inspect =
     (case d of None \<Rightarrow> inspect | Some n \<Rightarrow> if n = 0 then inspect else Inr (of_int n))"

definition media_dir_of :: "('i, 'e) env \<Rightarrow> path \<Rightarrow> ('d, 'e) Program \<Rightarrow> 'i \<Rightarrow> path" where
  "media_dir_of env media_root program program_id =
     media_root @ [platform_id program, station_id program, str_oid env program_id]"

definition from_program ::
  "('i, 'e) env \<Rightarrow> ('d, 'e) Program \<Rightarrow> 'i \<Rightarrow> string \<Rightarrow> path \<Rightarrow> error + 'd PodcastItem" where
  "from_program env program program_id base_url media_root =
     (case glob_media env (media_dir_of env media_root program program_id) of
        [] \<Rightarrow> Inl IndexError
      | media_path # _ \<Rightarrow>
          (case duration_or (duration program) (media_path_to_duration env media_path) of
             Inl e \<Rightarrow> Inl e
           | Inr dur \<Rightarrow>
               (case from_path env media_path (is_video program) base_url media_root of
                  Inl e \<Rightarrow> Inl e
                | Inr enc \<Rightarrow>
                    Inr \<lparr>title = episode_name program,
                         enclosure = enc,
                         guid = str_eid env (episode_id program),
                         pub_date = Some (datetime program),
                         item_description = or_str (description program) (information program),
                         itunes_duration = Some (py_int dur),
                         link = url program,
                         itunes_image = image_url program,
                         itunes_explicit = False,
                         itunes_title = None,
                         itunes_episode = None,
                         itunes_season = None,
                         itunes_episode_type = FULL,
                         podcast_transcript = None,
                         itunes_block = False\<rparr>)))"

record PodcastChannel =
  ch_title :: string
  ch_description :: "string option"
  ch_itunes_image :: "string option"
  language :: string
  itunes_category :: "ItunesCategory option"
  ch_itunes_explicit :: bool
  itunes_author :: "string option"
  ch_link :: "string option"
  ch_itunes_title :: "string option"
  itunes_type :: ItunesType
  ch_copyright :: "string option"
  itunes_new_feed_url :: "string option"
  ch_itunes_block :: bool
  itunes_complete :: bool

definition channel_from_program :: "('d, 'e) Program \<Rightarrow> PodcastChannel" where
  "channel_from_program program =
     \<lparr>ch_title = name program,
      ch_description = or_str (description program) (information program),
      ch_itunes_image = image_url program,
      language = ''ja'',
      itunes_category = None,
      ch_itunes_explicit = False,
      itunes_author = Some (station_id program),
      ch_link = url program,
      ch_itunes_title = None,
      itunes_type = EPISODIC,
      ch_copyright = copyright program,
      itunes_new_feed_url = None,
      ch_itunes_block = False,
      itunes_complete = False\<rparr>"

subsection \<open>The publish date string\<close>

text \<open>
  A \<^verbatim>\<open>datetime.datetime\<close> value: the wall-clock fields and the attached zone, given by its
  UTC offset in minutes (\<open>None\<close> for a naive value). \<open>ymd2ord\<close> and \<open>weekday\<close> follow the
  proleptic Gregorian ordinal of the standard library (Monday is 0).
\<close>

record pydatetime =
  year :: nat
  month :: nat
  day :: nat
  hour :: nat
  minute :: nat
  second :: nat
  tzinfo :: "int option"

definition is_leap :: "nat \<Rightarrow> bool" where
  "is_leap y = (y mod 4 = 0 \<and> (y mod 100 \<noteq> 0 \<or> y mod 400 = 0))"

definition days_before_year :: "nat \<Rightarrow> nat" where
  "days_before_year y =
     (let z = y - 1 in z * 365 + z div 4 - z div 100 + z div 400)"

definition days_in_month :: "nat \<Rightarrow> nat \<Rightarrow> nat" where
  "days_in_month y m =
     (if m = 2 \<and> is_leap y then 29
      else [31, 28, 31, 30, 31, 30, 31, 31, 30, 31, 30, 31] ! ((m - 1) mod 12))"

definition days_before_month :: "nat \<Rightarrow> nat \<Rightarrow> nat" where
  "days_before_month y m = sum_list (map (days_in_month y) [1..<m])"

definition ymd2ord :: "nat \<Rightarrow> nat \<Rightarrow> nat \<Rightarrow> nat" where
  "ymd2ord y m d = days_before_year y + days_before_month y m + d"

definition weekday :: "pydatetime \<Rightarrow> nat" where
  "weekday dt = (ymd2ord (year dt) (month dt) (day dt) + 6) mod 7"

definition digit :: "nat \<Rightarrow> char" where
  "digit n = ''0123456789'' ! (n mod 10)"

definition pad2 :: "nat \<Rightarrow> string" where
  "pad2 n = [digit (n div 10), digit n]"

definition pad4 :: "nat \<Rightarrow> string" where
  "pad4 n = [digit (n div 1000), digit (n div 100), digit (n div 10), digit n]"

definition day_abbr :: "nat \<Rightarrow> string" where
  "day_abbr w = [''Mon'', ''Tue'', ''Wed'', ''Thu'', ''Fri'', ''Sat'', ''Sun''] ! (w mod 7)"

definition month_abbr :: "nat \<Rightarrow> string" where
  "month_abbr m =
     [''Jan'', ''Feb'', ''Mar'', ''Apr'', ''May'', ''Jun'',
      ''Jul'', ''Aug'', ''Sep'', ''Oct'', ''Nov'', ''Dec''] ! ((m - 1) mod 12)"

text \<open>\<^verbatim>\<open>%z\<close>: empty for a naive value, otherwise the sign and \<^verbatim>\<open>HHMM\<close> of the offset.\<close>

definition fmt_z :: "int option \<Rightarrow> string" where
  "fmt_z tz =
     (case tz of
        None \<Rightarrow> []
      | Some off \<Rightarrow>
          (if off < 0 then ''-'' else ''+'')
            @ pad2 (nat \<bar>off\<bar> div 60) @ pad2 (nat \<bar>off\<bar> mod 60))"

text \<open>\<^verbatim>\<open>strftime("%a, %d %b %Y %H:%M:%S %z")\<close> in the C locale.\<close>

definition strftime_pub :: "pydatetime \<Rightarrow> string" where
  "strftime_pub dt =
     day_abbr (weekday dt) @ '', '' @ pad2 (day dt) @ '' '' @ month_abbr (month dt)
       @ '' '' @ pad4 (year dt) @ '' '' @ pad2 (hour dt) @ '':'' @ pad2 (minute dt)
       @ '':'' @ pad2 (second dt) @ '' '' @ fmt_z (tzinfo dt)"

text \<open>
  \<open>timezone zone\<close> is the UTC offset in minutes of the object \<^verbatim>\<open>pytz.timezone(zone)\<close> as
  \<^verbatim>\<open>datetime.replace(tzinfo=...)\<close> attaches it. \<^verbatim>\<open>replace\<close> keeps every wall-clock field.
\<close>

definition datetime_to_pub_data :: "(string \<Rightarrow> int) \<Rightarrow> pydatetime \<Rightarrow> string \<Rightarrow> string" where
  "datetime_to_pub_data timezone dt zone =
     strftime_pub (dt\<lparr>tzinfo := Some (timezone zone)\<rparr>)"


subsection \<open>Filling a feed entry\<close>

definition RADIKO_LINK :: string where
  "RADIKO_LINK = ''https://radiko.jp/''"

definition episode_type_value :: "EpisodeType \<Rightarrow> string" where
  "episode_type_value t = (case t of FULL \<Rightarrow> ''full'' | TRAILER \<Rightarrow> ''trailer'' | BONUS \<Rightarrow> ''bonus'')"

text \<open>The values \<open>set_feed_entry\<close> hands to the feedgen entry, one field per setter call.\<close>

record FeedEntry =
  fe_title :: string
  fe_enclosure :: Enclosure
  fe_guid :: "string \<times> bool"
  fe_pubDate :: "string option"
  fe_description :: "string option"
  fe_itunes_duration :: "int option"
  fe_link :: string
  fe_itunes_image :: "string option"
  fe_itunes_explicit :: string
  fe_itunes_title :: "string option"
  fe_itunes_episode :: "int option"
  fe_itunes_season :: "int option"
  fe_itunes_episode_type :: string
  fe_itunes_block :: bool

definition set_feed_entry :: "(string \<Rightarrow> int) \<Rightarrow> pydatetime PodcastItem \<Rightarrow> FeedEntry" where
  "set_feed_entry timezone self =
     \<lparr>fe_title = title self,
      fe_enclosure = enclosure self,
      fe_guid = (guid self, False),
      fe_pubDate =
        (case pub_date self of
           None \<Rightarrow> None
         | Some d \<Rightarrow> Some (datetime_to_pub_data timezone d ''Asia/Tokyo'')),
      fe_description = item_description self,
      fe_itunes_duration = itunes_duration self,
      fe_link = (case or_str (link self) (Some RADIKO_LINK) of None \<Rightarrow> RADIKO_LINK | Some l \<Rightarrow> l),
      fe_itunes_image = itunes_image self,
      fe_itunes_explicit = (if itunes_explicit self then ''yes'' else ''no''),
      fe_itunes_title = itunes_title self,
      fe_itunes_episode = itunes_episode self,
      fe_itunes_season = itunes_season self,
      fe_itunes_episode_type = episode_type_value (itunes_episode_type self),
      fe_itunes_block = itunes_block self\<rparr>"

subsection \<open>PodcastRssFeedGenCreator.create\<close>

text \<open>
  \<^verbatim>\<open>sorted(xs, key=..., reverse=...)\<close>: a stable sort; with \<^verbatim>\<open>reverse=True\<close> the result is that
  of reversing the input, sorting it and reversing again, so equal keys keep their input
  order in both directions.
\<close>

definition sorted_py :: "('a \<Rightarrow> 'k::linorder) \<Rightarrow> bool \<Rightarrow> 'a list \<Rightarrow> 'a list" where
  "sorted_py key reverse xs =
     (if reverse then rev (sort_key key (rev xs)) else sort_key key xs)"

text \<open>Lines 280 to 297: validating \<^verbatim>\<open>sort_by\<close> or choosing it from the station ids.\<close>

definition select_sort_by ::
  "string option \<Rightarrow> (('d, 'e) Program \<times> 'i) list \<Rightarrow> error + string" where
  "select_sort_by sort_by program_and_id_pairs =
     (case sort_by of
        Some s \<Rightarrow>
          if s \<notin> set [''datetime'', ''episode_id''] then Inl ValueError else Inr s
      | None \<Rightarrow>
          if length (remdups (map (\<lambda>x. station_id (fst x)) program_and_id_pairs)) > 1
          then Inr ''datetime''
          else
            (case program_and_id_pairs of
               [] \<Rightarrow> Inl IndexError
             | x # _ \<Rightarrow>
                 if station_id (fst x) \<in> set [''onsen.ag'', ''hibiki-radio.jp'']
                 then Inr ''episode_id''
                 else Inr ''datetime''))"

text \<open>Lines 298 to 302: \<^verbatim>\<open>getattr(x[0], sort_by)\<close> is one of the two fields.\<close>

definition sort_pairs ::
  "string \<Rightarrow> bool \<Rightarrow> (('d::linorder, 'e::linorder) Program \<times> 'i) list
     \<Rightarrow> (('d, 'e) Program \<times> 'i) list" where
  "sort_pairs sort_by from_oldest program_and_id_pairs =
     (if sort_by = ''datetime''
      then sorted_py (\<lambda>x. datetime (fst x)) (\<not> from_oldest) program_and_id_pairs
      else sorted_py (\<lambda>x. episode_id (fst x)) (\<not> from_oldest) program_and_id_pairs)"

text \<open>
  Lines 305 to 315: the loop over the sorted pairs. \<open>prev_datetime\<close> and \<open>prev_episode_id\<close>
  start as \<open>None\<close> and are overwritten by every pair, kept or not.
\<close>

fun unique_pairs ::
  "'d option \<Rightarrow> 'e option \<Rightarrow> (('d, 'e) Program \<times> 'i) list \<Rightarrow> (('d, 'e) Program \<times> 'i) list" where
  "unique_pairs prev_datetime prev_episode_id [] = []"
| "unique_pairs prev_datetime prev_episode_id ((program, program_id) # rest) =
     (if prev_datetime \<noteq> Some (datetime program) \<and> prev_episode_id \<noteq> Some (episode_id program)
      then (program, program_id)
             # unique_pairs (Some (datetime program)) (Some (episode_id program)) rest
      else unique_pairs (Some (datetime program)) (Some (episode_id program)) rest)"

definition remove_dups :: "(('d, 'e) Program \<times> 'i) list \<Rightarrow> (('d, 'e) Program \<times> 'i) list" where
  "remove_dups program_and_id_pairs = unique_pairs None None program_and_id_pairs"

text \<open>The pairs after sorting and, when requested, duplicate removal (lines 298 to 321).\<close>

definition final_pairs ::
  "string \<Rightarrow> bool \<Rightarrow> bool \<Rightarrow> (('d::linorder, 'e::linorder) Program \<times> 'i) list
     \<Rightarrow> (('d, 'e) Program \<times> 'i) list" where
  "final_pairs sort_by from_oldest remove_duplicates program_and_id_pairs =
     (let sorted_pairs = sort_pairs sort_by from_oldest program_and_id_pairs
      in if remove_duplicates then remove_dups sorted_pairs else sorted_pairs)"

text \<open>
  Lines 324 to 326: the channel of the feed. \<^verbatim>\<open>pairs[-1 if from_oldest else 0]\<close> raises
  IndexError on an empty list.
\<close>

definition select_channel ::
  "PodcastChannel option \<Rightarrow> bool \<Rightarrow> (('d, 'e) Program \<times> 'i) list \<Rightarrow> error + PodcastChannel" where
  "select_channel channel from_oldest program_and_id_pairs =
     (case channel of
        Some c \<Rightarrow> Inr c
      | None \<Rightarrow>
          if program_and_id_pairs = [] then Inl IndexError
          else Inr (channel_from_program
                      (fst (if from_oldest then last program_and_id_pairs
                            else hd program_and_id_pairs))))"

text \<open>
  The feedgen library. \<open>to_feed_generator\<close> (lines 238 to 260) and \<open>set_feed_entry\<close> hand
  their values to setters of feedgen, which validate them and may raise. The library is not
  part of this repository, so its verdict is a parameter: \<open>channel_setters_raise\<close> and
  \<open>entry_setters_raise\<close> give the exception, if any, that the setters raise on the
  values they receive. \<open>pytz_offset\<close> is the zone lookup of pytz, and \<open>datetime_fields\<close>
  reads the fields of a datetime value, whose comparison is kept abstract in \<open>'d\<close>.
\<close>

record FeedChannel =
  fc_title :: string
  fc_description :: "string option"
  fc_itunes_image :: "string option"
  fc_language :: string
  fc_itunes_category :: "ItunesCategory option"
  fc_itunes_explicit :: string
  fc_itunes_author :: "string option"
  fc_link :: string
  fc_itunes_type :: string
  fc_copyright :: "string option"
  fc_itunes_new_feed_url :: "string option"
  fc_itunes_block :: bool
  fc_itunes_complete :: bool

record 'd feed_lib =
  pytz_offset :: "string \<Rightarrow> int"
  datetime_fields :: "'d \<Rightarrow> pydatetime"
  channel_setters_raise :: "FeedChannel \<Rightarrow> error option"
  entry_setters_raise :: "FeedEntry \<Rightarrow> error option"

definition itunes_type_value :: "ItunesType \<Rightarrow> string" where
  "itunes_type_value t = (case t of EPISODIC \<Rightarrow> ''episodic'' | SERIAL \<Rightarrow> ''serial'')"

text \<open>The values \<open>to_feed_generator\<close> hands to the feedgen generator, one per setter call.\<close>

definition channel_tags :: "PodcastChannel \<Rightarrow> FeedChannel" where
  "channel_tags self =
     \<lparr>fc_title = ch_title self,
      fc_description = ch_description self,
      fc_itunes_image = ch_itunes_image self,
      fc_language = language self,
      fc_itunes_category = itunes_category self,
      fc_itunes_explicit = (if ch_itunes_explicit self then ''yes'' else ''no''),
      fc_itunes_author = itunes_author self,
      fc_link = (case or_str (ch_link self) (Some RADIKO_LINK) of
                   None \<Rightarrow> RADIKO_LINK | Some l \<Rightarrow> l),
      fc_itunes_type = itunes_type_value (itunes_type self),
      fc_copyright = ch_copyright self,
      fc_itunes_new_feed_url = itunes_new_feed_url self,
      fc_itunes_block = ch_itunes_block self,
      fc_itunes_complete = itunes_complete self\<rparr>"

text \<open>
  The feed generator: the channel it was built from, the values its setters received and
  the entries appended so far, in order.
\<close>

record FeedGenerator =
  feed_channel :: PodcastChannel
  feed_tags :: FeedChannel
  feed_entries :: "FeedEntry list"

definition to_feed_generator :: "'d feed_lib \<Rightarrow> PodcastChannel \<Rightarrow> error + FeedGenerator" where
  "to_feed_generator lib self =
     (case channel_setters_raise lib (channel_tags self) of
        Some err \<Rightarrow> Inl err
      | None \<Rightarrow>
          Inr \<lparr>feed_channel = self, feed_tags = channel_tags self, feed_entries = []\<rparr>)"

text \<open>The item with the fields of its publish date read off.\<close>

definition item_with_fields :: "('d \<Rightarrow> pydatetime) \<Rightarrow> 'd PodcastItem \<Rightarrow> pydatetime PodcastItem" where
  "item_with_fields read_fields item =
     \<lparr>title = title item,
      enclosure = enclosure item,
      guid = guid item,
      pub_date = map_option read_fields (pub_date item),
      item_description = item_description item,
      itunes_duration = itunes_duration item,
      link = link item,
      itunes_image = itunes_image item,
      itunes_explicit = itunes_explicit item,
      itunes_title = itunes_title item,
      itunes_episode = itunes_episode item,
      itunes_season = itunes_season item,
      itunes_episode_type = itunes_episode_type item,
      podcast_transcript = podcast_transcript item,
      itunes_block = itunes_block item\<rparr>"

text \<open>
  Line 336: \<^verbatim>\<open>item.set_feed_entry(feed_generator.add_entry(order="append"))\<close>. The entry is
  appended to the generator unless a setter raises.
\<close>

definition append_entry ::
  "'d feed_lib \<Rightarrow> 'd PodcastItem \<Rightarrow> FeedGenerator \<Rightarrow> error + FeedGenerator" where
  "append_entry lib item feed_generator =
     (let entry = set_feed_entry (pytz_offset lib) (item_with_fields (datetime_fields lib) item)
      in case entry_setters_raise lib entry of
           Some err \<Rightarrow> Inl err
         | None \<Rightarrow>
             Inr (feed_generator\<lparr>feed_entries := feed_entries feed_generator @ [entry]\<rparr>))"

text \<open>
  Lines 332 to 339, the body of the loop for one pair: the item is built and entered; an
  exception of either step is logged and raised again.
\<close>

definition add_entry ::
  "'d feed_lib \<Rightarrow> ('i, 'e) env \<Rightarrow> string \<Rightarrow> path \<Rightarrow> (('d, 'e) Program \<times> 'i)
     \<Rightarrow> FeedGenerator \<Rightarrow> error + FeedGenerator" where
  "add_entry lib env base_url media_root pair feed_generator =
     (case from_program env (fst pair) (snd pair) base_url media_root of
        Inl err \<Rightarrow> Inl err
      | Inr item \<Rightarrow> append_entry lib item feed_generator)"

text \<open>
  Lines 330 to 339: the loop over the pairs in their final order. The first exception ends
  it, so no feed is returned.
\<close>

fun add_entries ::
  "'d feed_lib \<Rightarrow> ('i, 'e) env \<Rightarrow> string \<Rightarrow> path \<Rightarrow> (('d, 'e) Program \<times> 'i) list
     \<Rightarrow> FeedGenerator \<Rightarrow> error + FeedGenerator" where
  "add_entries lib env base_url media_root [] feed_generator = Inr feed_generator"
| "add_entries lib env base_url media_root (pair # rest) feed_generator =
     (case add_entry lib env base_url media_root pair feed_generator of
        Inl err \<Rightarrow> Inl err
      | Inr fg \<Rightarrow> add_entries lib env base_url media_root rest fg)"

definition create ::
  "'d feed_lib \<Rightarrow> ('i, 'e) env \<Rightarrow> string \<Rightarrow> path
     \<Rightarrow> (('d::linorder, 'e::linorder) Program \<times> 'i) list
     \<Rightarrow> PodcastChannel option \<Rightarrow> string option \<Rightarrow> bool \<Rightarrow> bool
     \<Rightarrow> error + FeedGenerator" where
  "create lib env base_url media_root program_and_id_pairs channel sort_by from_oldest
       remove_duplicates =
     (case select_sort_by sort_by program_and_id_pairs of
        Inl err \<Rightarrow> Inl err
      | Inr key \<Rightarrow>
          (let pairs = final_pairs key from_oldest remove_duplicates program_and_id_pairs
           in case select_channel channel from_oldest pairs of
                Inl err \<Rightarrow> Inl err
              | Inr ch \<Rightarrow>
                  (case to_feed_generator lib ch of
                     Inl err \<Rightarrow> Inl err
                   | Inr feed_generator \<Rightarrow>
                       add_entries lib env base_url media_root pairs feed_generator)))"

subsection \<open>Characterisations used in the statements\<close>

text \<open>
  The rule of the duplicate pass in the words of the specification: the item at position
  \<open>0\<close> is kept, and a later item is kept exactly when its datetime and its episode id both
  differ from those of the item immediately before it.
\<close>

definition kept_at :: "(('d, 'e) Program \<times> 'i) list \<Rightarrow> nat \<Rightarrow> bool" where
  "kept_at xs i =
     (i = 0 \<or>
      (datetime (fst (xs ! i)) \<noteq> datetime (fst (xs ! (i - 1)))
       \<and> episode_id (fst (xs ! i)) \<noteq> episode_id (fst (xs ! (i - 1)))))"

text \<open>Two pairs share a field when their datetimes or their episode ids are equal.\<close>

definition shares_field :: "(('d, 'e) Program \<times> 'i) \<Rightarrow> (('d, 'e) Program \<times> 'i) \<Rightarrow> bool" where
  "shares_field x y =
     (datetime (fst x) = datetime (fst y) \<or> episode_id (fst x) = episode_id (fst y))"


subsection \<open>Example data\<close>

text \<open>
  A small world for the concrete instances below: episode ids and datetimes are natural
  numbers, identifiers are their own string form, and every directory lists the same given
  entry names.
\<close>

fun str_nat :: "nat \<Rightarrow> string" where
  "str_nat n = (if n < 10 then [digit n] else str_nat (n div 10) @ [digit n])"

declare str_nat.simps [simp del]

definition ex_env :: "string list \<Rightarrow> (string, nat) env" where
  "ex_env names =
     \<lparr>str_oid = (\<lambda>s. s),
      str_eid = str_nat,
      listdir = (\<lambda>d. names),
      getsize = (\<lambda>p. 4096),
      mp3_length = (\<lambda>p. Inr (Fract 3601 2)),
      mp4_length = (\<lambda>p. Inr (Fract 3601 2)),
      relpath = (\<lambda>p r. concat (map (\<lambda>c. CHR ''/'' # c) (drop (length r) p))),
      quote = (\<lambda>s. s),
      urljoin = (\<lambda>b u. b @ u)\<rparr>"

definition ex_program :: "string \<Rightarrow> string \<Rightarrow> nat \<Rightarrow> nat \<Rightarrow> (nat, nat) Program" where
  "ex_program nm sid d e =
     \<lparr>platform_id = ''radiko.jp'',
      station_id = sid,
      name = nm,
      url = None,
      description = None,
      information = None,
      copyright = None,
      episode_id = e,
      episode_name = ''episode'',
      datetime = d,
      duration = Some 1800,
      image_url = None,
      is_video = False\<rparr>"

text \<open>
  The zone object pytz hands out for \<^verbatim>\<open>Asia/Tokyo\<close> carries the zone's local mean time,
  nine hours and nineteen minutes, when it is attached with \<^verbatim>\<open>replace\<close>.
\<close>

definition ex_timezone :: "string \<Rightarrow> int" where
  "ex_timezone zone = 559"

definition ex_datetime :: "int option \<Rightarrow> pydatetime" where
  "ex_datetime tz =
     \<lparr>year = 2024, month = 1, day = 1, hour = 0, minute = 0, second = 0, tzinfo = tz\<rparr>"

text \<open>
  A feed library for the examples: it reads the example datetimes as days of January 2024
  and, like feedgen, refuses a duration that is not a plain number of seconds, here a
  negative one, with ValueError.
\<close>

definition ex_entry_check :: "FeedEntry \<Rightarrow> error option" where
  "ex_entry_check entry =
     (case fe_itunes_duration entry of
        None \<Rightarrow> None
      | Some n \<Rightarrow> if n < 0 then Some ValueError else None)"

definition ex_feed_lib :: "nat feed_lib" where
  "ex_feed_lib =
     \<lparr>pytz_offset = ex_timezone,
      datetime_fields = (\<lambda>d. (ex_datetime None)\<lparr>day := d\<rparr>),
      channel_setters_raise = (\<lambda>c. None),
      entry_setters_raise = ex_entry_check\<rparr>"


section \<open>Properties\<close>

subsection \<open>Evaluation of the examples\<close>

lemmas ex_eval = from_program_def glob_media_def media_dir_of_def duration_or_def from_path_def
  path_to_enclosure_url_def path_to_enclosure_length_def path_to_enclosure_type_def
  path_exists_def path_suffix_def path_name_def rfind_def ex_env_def ex_program_def or_str_def
  py_int_def str_nat.simps digit_def media_path_to_duration_def

lemmas feed_eval = add_entry_def append_entry_def set_feed_entry_def item_with_fields_def
  to_feed_generator_def channel_tags_def ex_feed_lib_def ex_entry_check_def

subsection \<open>The guid of an item\<close>




subsection \<open>The enclosure type\<close>

text \<open>
  C8. The enclosure type depends on the path only through its extension: \<^verbatim>\<open>.mp3\<close> gives
  \<^verbatim>\<open>audio/mpeg\<close>, \<^verbatim>\<open>.m4a\<close> gives \<^verbatim>\<open>audio/x-m4a\<close>, \<^verbatim>\<open>.mp4\<close> gives \<^verbatim>\<open>video/mp4\<close> for a video and
  \<^verbatim>\<open>audio/x-m4a\<close> otherwise, \<^verbatim>\<open>.mov\<close> gives \<^verbatim>\<open>video/quicktime\<close>, and every other extension
  raises ValueError.
\<close>

theorem enclosure_type_by_extension:
  "(path_suffix p = ''.mp3'' \<longrightarrow> path_to_enclosure_type p v = Inr ''audio/mpeg'')
   \<and> (path_suffix p = ''.m4a'' \<longrightarrow> path_to_enclosure_type p v = Inr ''audio/x-m4a'')
   \<and> (path_suffix p = ''.mp4'' \<longrightarrow>
        path_to_enclosure_type p v = Inr (if v then ''video/mp4'' else ''audio/x-m4a''))
   \<and> (path_suffix p = ''.mov'' \<longrightarrow> path_to_enclosure_type p v = Inr ''video/quicktime'')
   \<and> (path_suffix p \<notin> {''.mp3'', ''.m4a'', ''.mp4'', ''.mov''} \<longrightarrow>
        path_to_enclosure_type p v = Inl ValueError)
   \<and> (path_suffix p = path_suffix q \<longrightarrow>
        path_to_enclosure_type p v = path_to_enclosure_type q v)"
  by (auto simp: path_to_enclosure_type_def)

theorem enclosure_type_by_extension_witness:
  "path_suffix [''data'', ''media.mp4''] = ''.mp4''
   \<and> path_to_enclosure_type [''data'', ''media.mp4''] True = Inr ''video/mp4''
   \<and> path_suffix [''data'', ''media.wav''] \<notin> {''.mp3'', ''.m4a'', ''.mp4'', ''.mov''}
   \<and> path_to_enclosure_type [''data'', ''media.wav''] False = Inl ValueError"
proof -
  have a: "path_suffix [''data'', ''media.mp4''] = ''.mp4''"
    by (simp add: path_suffix_def path_name_def rfind_def)
  have b: "path_suffix [''data'', ''media.wav''] \<notin> {''.mp3'', ''.m4a'', ''.mp4'', ''.mov''}"
    by (simp add: path_suffix_def path_name_def rfind_def)
  from a b enclosure_type_by_extension [of "[''data'', ''media.mp4'']" True]
    enclosure_type_by_extension [of "[''data'', ''media.wav'']" False]
  show ?thesis by simp
qed

subsection \<open>A QuickTime file without a precomputed duration\<close>

lemma glob_media_exists: "m \<in> set (glob_media env d) \<Longrightarrow> path_exists env m"
  by (auto simp: glob_media_def path_exists_def)

text \<open>
  C10. When the media file found for the episode has the extension \<^verbatim>\<open>.mov\<close> and the
  program's precomputed duration is absent or zero, \<open>from_program\<close> fails with the
  ValueError of the media inspector, although the type resolver accepts that extension.
\<close>

theorem mov_duration_unsupported:
  assumes "glob_media env (media_dir_of env media_root program program_id) = m # ms"
    and "path_suffix m = ''.mov''"
    and "duration program = None \<or> duration program = Some 0"
  shows "from_program env program program_id base_url media_root = Inl ValueError
         \<and> path_to_enclosure_type m v = Inr ''video/quicktime''"
proof -
  have "m \<in> set (glob_media env (media_dir_of env media_root program program_id))"
    using assms(1) by simp
  then have ex: "path_exists env m" by (rule glob_media_exists)
  have "media_path_to_duration env m = Inl ValueError"
    using ex assms(2) by (simp add: media_path_to_duration_def)
  then have "duration_or (duration program) (media_path_to_duration env m) = Inl ValueError"
    using assms(3) by (auto simp: duration_or_def)
  then show ?thesis
    using assms(1,2) by (simp add: from_program_def path_to_enclosure_type_def)
qed

theorem mov_duration_unsupported_witness:
  "glob_media (ex_env [''media.mov''])
       (media_dir_of (ex_env [''media.mov'']) [''data'']
          ((ex_program ''show'' ''TBS'' 1 7)\<lparr>duration := Some 0\<rparr>) ''65a1'')
     = [[''data'', ''radiko.jp'', ''TBS'', ''65a1'', ''media.mov'']]
   \<and> path_suffix [''data'', ''radiko.jp'', ''TBS'', ''65a1'', ''media.mov''] = ''.mov''
   \<and> from_program (ex_env [''media.mov''])
        ((ex_program ''show'' ''TBS'' 1 7)\<lparr>duration := Some 0\<rparr>) ''65a1''
        ''https://x.example/'' [''data''] = Inl ValueError
   \<and> path_to_enclosure_type [''data'', ''radiko.jp'', ''TBS'', ''65a1'', ''media.mov''] True
        = Inr ''video/quicktime''"
proof -
  have a: "glob_media (ex_env [''media.mov''])
       (media_dir_of (ex_env [''media.mov'']) [''data'']
          ((ex_program ''show'' ''TBS'' 1 7)\<lparr>duration := Some 0\<rparr>) ''65a1'')
     = [''data'', ''radiko.jp'', ''TBS'', ''65a1'', ''media.mov''] # []"
    by (simp add: glob_media_def media_dir_of_def ex_env_def ex_program_def)
  have b: "path_suffix [''data'', ''radiko.jp'', ''TBS'', ''65a1'', ''media.mov''] = ''.mov''"
    by (simp add: path_suffix_def path_name_def rfind_def)
  have c: "duration ((ex_program ''show'' ''TBS'' 1 7)\<lparr>duration := Some 0\<rparr>) = None
           \<or> duration ((ex_program ''show'' ''TBS'' 1 7)\<lparr>duration := Some 0\<rparr>) = Some 0"
    by simp
  from mov_duration_unsupported [OF a b c, of "''https://x.example/''" True] a b
  show ?thesis by simp
qed

subsection \<open>Duplicate removal\<close>

lemma unique_pairs_index:
  "unique_pairs pd pe xs =
     map (\<lambda>i. xs ! i)
       (filter (\<lambda>i. if i = 0 then pd \<noteq> Some (datetime (fst (xs ! 0)))
                                    \<and> pe \<noteq> Some (episode_id (fst (xs ! 0)))
                     else datetime (fst (xs ! i)) \<noteq> datetime (fst (xs ! (i - 1)))
                          \<and> episode_id (fst (xs ! i)) \<noteq> episode_id (fst (xs ! (i - 1))))
          [0..<length xs])"
proof (induction xs arbitrary: pd pe)
  case Nil
  show ?case by simp
next
  case (Cons x xs)
  obtain program program_id where x: "x = (program, program_id)" by (cases x)
  have upt: "[0..<length (x # xs)] = 0 # map Suc [0..<length xs]"
    by (simp add: upt_conv_Cons map_Suc_upt del: upt_Suc)
  define P where "P = (\<lambda>i. if i = 0 then pd \<noteq> Some (datetime (fst ((x # xs) ! 0)))
                                    \<and> pe \<noteq> Some (episode_id (fst ((x # xs) ! 0)))
                     else datetime (fst ((x # xs) ! i)) \<noteq> datetime (fst ((x # xs) ! (i - 1)))
                          \<and> episode_id (fst ((x # xs) ! i)) \<noteq> episode_id (fst ((x # xs) ! (i - 1))))"
  have P0: "P 0 \<longleftrightarrow> pd \<noteq> Some (datetime program) \<and> pe \<noteq> Some (episode_id program)"
    by (simp add: P_def x)
  have tl: "map (\<lambda>i. (x # xs) ! i) (filter P (map Suc [0..<length xs]))
     = unique_pairs (Some (datetime program)) (Some (episode_id program)) xs"
    unfolding Cons.IH [of "Some (datetime program)" "Some (episode_id program)"] filter_map map_map
    by (rule arg_cong2 [where f = map])
       (auto simp: P_def x fun_eq_iff nth_Cons' intro!: filter_cong)
  have "unique_pairs pd pe (x # xs) = map (\<lambda>i. (x # xs) ! i) (filter P [0..<length (x # xs)])"
    unfolding upt by (simp add: P0 tl) (simp add: x)
  then show ?case unfolding P_def .
qed

text \<open>
  C2. With \<open>remove_duplicates\<close> set, the pairs handed on are exactly the items of the sorted
  sequence at the kept positions, in order: position \<open>0\<close> is always kept, and a later
  position is kept if and only if both its datetime and its episode id differ from those of
  the item immediately before it in the sorted sequence (so it is dropped exactly when at
  least one of the two fields repeats).
\<close>

theorem dedup_rule:
  "final_pairs sort_by from_oldest True pairs =
     map (\<lambda>i. sort_pairs sort_by from_oldest pairs ! i)
       (filter (kept_at (sort_pairs sort_by from_oldest pairs))
          [0..<length (sort_pairs sort_by from_oldest pairs)])"
  unfolding final_pairs_def remove_dups_def Let_def unique_pairs_index
  by (auto simp: kept_at_def intro!: filter_cong arg_cong2 [where f = map])

theorem dedup_rule_witness:
  "final_pairs ''datetime'' True True
      [(ex_program ''show'' ''TBS'' 1 1, ''a''), (ex_program ''show'' ''TBS'' 1 2, ''b''),
       (ex_program ''show'' ''TBS'' 2 1, ''c'')]
     = [(ex_program ''show'' ''TBS'' 1 1, ''a''), (ex_program ''show'' ''TBS'' 2 1, ''c'')]"
proof -
  have s: "sort_pairs ''datetime'' True
      [(ex_program ''show'' ''TBS'' 1 1, ''a''), (ex_program ''show'' ''TBS'' 1 2, ''b''),
       (ex_program ''show'' ''TBS'' 2 1, ''c'')]
     = [(ex_program ''show'' ''TBS'' 1 1, ''a''), (ex_program ''show'' ''TBS'' 1 2, ''b''),
        (ex_program ''show'' ''TBS'' 2 1, ''c'')]"
    by (simp add: sort_pairs_def sorted_py_def ex_program_def)
  have u: "[0..<3] = [0, 1, 2]" by (simp add: upt_rec)
  show ?thesis
    using dedup_rule [of "''datetime''" True
      "[(ex_program ''show'' ''TBS'' 1 1, ''a''), (ex_program ''show'' ''TBS'' 1 2, ''b''),
       (ex_program ''show'' ''TBS'' 2 1, ''c'')]"]
    unfolding s by (simp add: u kept_at_def ex_program_def)
qed

lemma unique_pairs_step:
  "unique_pairs (Some (datetime (fst p))) (Some (episode_id (fst p))) (x # xs) =
     (if shares_field p x
      then unique_pairs (Some (datetime (fst x))) (Some (episode_id (fst x))) xs
      else x # unique_pairs (Some (datetime (fst x))) (Some (episode_id (fst x))) xs)"
  by (cases x) (auto simp: shares_field_def)

lemma unique_pairs_idem_aux:
  assumes tr: "\<forall>x\<in>S. \<forall>y\<in>S. \<forall>z\<in>S. shares_field x y \<and> shares_field y z \<longrightarrow> shares_field x z"
  shows "set xs \<subseteq> S \<Longrightarrow> p \<in> S \<Longrightarrow> q \<in> S \<Longrightarrow> shares_field q p \<Longrightarrow>
     unique_pairs (Some (datetime (fst q))) (Some (episode_id (fst q)))
       (unique_pairs (Some (datetime (fst p))) (Some (episode_id (fst p))) xs)
     = unique_pairs (Some (datetime (fst p))) (Some (episode_id (fst p))) xs"
proof (induction xs arbitrary: p q)
  case Nil
  show ?case by simp
next
  case (Cons x xs)
  from Cons.prems have xS: "x \<in> S" and sub: "set xs \<subseteq> S" by auto
  have refl: "shares_field x x" by (simp add: shares_field_def)
  show ?case
  proof (cases "shares_field p x")
    case True
    with Cons.prems xS tr have "shares_field q x" by blast
    from Cons.IH [OF sub xS \<open>q \<in> S\<close> this] True show ?thesis
      by (simp add: unique_pairs_step)
  next
    case False
    have "shares_field p q" using \<open>shares_field q p\<close> by (auto simp: shares_field_def)
    with False Cons.prems xS tr have nq: "\<not> shares_field q x" by blast
    from Cons.IH [OF sub xS xS refl] False nq show ?thesis
      by (simp add: unique_pairs_step)
  qed
qed

text \<open>
  C3 (as amended). The duplicate pass is idempotent on every sequence on which sharing a
  datetime or an episode id is a transitive relation, for instance when two records have the
  same datetime exactly when they have the same episode id.
\<close>

theorem dedup_idempotent_when_transitive:
  assumes "\<forall>x\<in>set xs. \<forall>y\<in>set xs. \<forall>z\<in>set xs.
             shares_field x y \<and> shares_field y z \<longrightarrow> shares_field x z"
  shows "remove_dups (remove_dups xs) = remove_dups xs"
proof (cases xs)
  case Nil
  then show ?thesis by (simp add: remove_dups_def)
next
  case (Cons x rest)
  obtain program program_id where x: "x = (program, program_id)" by (cases x)
  have "shares_field x x" by (simp add: shares_field_def)
  with unique_pairs_idem_aux [OF assms, of rest x x] Cons
  have "unique_pairs (Some (datetime (fst x))) (Some (episode_id (fst x)))
       (unique_pairs (Some (datetime (fst x))) (Some (episode_id (fst x))) rest)
     = unique_pairs (Some (datetime (fst x))) (Some (episode_id (fst x))) rest"
    by auto
  then show ?thesis by (simp add: remove_dups_def Cons x)
qed

theorem dedup_idempotent_when_transitive_witness:
  "remove_dups
      [(ex_program ''show'' ''TBS'' 1 1, ''a''), (ex_program ''show'' ''TBS'' 1 1, ''b''),
       (ex_program ''show'' ''TBS'' 2 2, ''c'')]
     = [(ex_program ''show'' ''TBS'' 1 1, ''a''), (ex_program ''show'' ''TBS'' 2 2, ''c'')]
   \<and> remove_dups (remove_dups
      [(ex_program ''show'' ''TBS'' 1 1, ''a''), (ex_program ''show'' ''TBS'' 1 1, ''b''),
       (ex_program ''show'' ''TBS'' 2 2, ''c'')])
     = [(ex_program ''show'' ''TBS'' 1 1, ''a''), (ex_program ''show'' ''TBS'' 2 2, ''c'')]"
proof -
  have tr: "\<forall>x\<in>set [(ex_program ''show'' ''TBS'' 1 1, ''a''), (ex_program ''show'' ''TBS'' 1 1, ''b''),
       (ex_program ''show'' ''TBS'' 2 2, ''c'')].
     \<forall>y\<in>set [(ex_program ''show'' ''TBS'' 1 1, ''a''), (ex_program ''show'' ''TBS'' 1 1, ''b''),
       (ex_program ''show'' ''TBS'' 2 2, ''c'')].
     \<forall>z\<in>set [(ex_program ''show'' ''TBS'' 1 1, ''a''), (ex_program ''show'' ''TBS'' 1 1, ''b''),
       (ex_program ''show'' ''TBS'' 2 2, ''c'')].
       shares_field x y \<and> shares_field y z \<longrightarrow> shares_field x z"
    by (simp add: shares_field_def ex_program_def)
  have ev: "remove_dups
      [(ex_program ''show'' ''TBS'' 1 1, ''a''), (ex_program ''show'' ''TBS'' 1 1, ''b''),
       (ex_program ''show'' ''TBS'' 2 2, ''c'')]
     = [(ex_program ''show'' ''TBS'' 1 1, ''a''), (ex_program ''show'' ''TBS'' 2 2, ''c'')]"
    by (simp add: remove_dups_def ex_program_def)
  from dedup_idempotent_when_transitive [OF tr] ev show ?thesis by simp
qed

text \<open>
  C3 as stated fails. The three pairs with (datetime, episode id) = (1, 1), (1, 2), (2, 1)
  are in ascending datetime order. The pass drops the second (same datetime as the first)
  and keeps the third, which is compared with the dropped second pair; a second run compares
  the third with the first, finds the same episode id and drops it.
\<close>

theorem dedup_not_idempotent_counterexample:
  "sort_pairs ''datetime'' True
      [(ex_program ''show'' ''TBS'' 1 1, ''a''), (ex_program ''show'' ''TBS'' 1 2, ''b''),
       (ex_program ''show'' ''TBS'' 2 1, ''c'')]
     = [(ex_program ''show'' ''TBS'' 1 1, ''a''), (ex_program ''show'' ''TBS'' 1 2, ''b''),
        (ex_program ''show'' ''TBS'' 2 1, ''c'')]
   \<and> remove_dups
      [(ex_program ''show'' ''TBS'' 1 1, ''a''), (ex_program ''show'' ''TBS'' 1 2, ''b''),
       (ex_program ''show'' ''TBS'' 2 1, ''c'')]
     = [(ex_program ''show'' ''TBS'' 1 1, ''a''), (ex_program ''show'' ''TBS'' 2 1, ''c'')]
   \<and> remove_dups
      [(ex_program ''show'' ''TBS'' 1 1, ''a''), (ex_program ''show'' ''TBS'' 2 1, ''c'')]
     = [(ex_program ''show'' ''TBS'' 1 1, ''a'')]"
  by (simp add: sort_pairs_def sorted_py_def remove_dups_def ex_program_def)

subsection \<open>Choosing the sort key\<close>

lemma remdups_all_same:
  "\<forall>x\<in>set xs. x = c \<Longrightarrow> length (remdups xs) \<le> 1"
proof -
  assume "\<forall>x\<in>set xs. x = c"
  then have "set xs \<subseteq> {c}" by auto
  then have "card (set xs) \<le> card {c}" by (intro card_mono) auto
  then show ?thesis by (simp add: length_remdups_card_conv)
qed

text \<open>
  C5. With \<open>sort_by\<close> unset, the key is \<^verbatim>\<open>datetime\<close> when the pairs span more than one
  station id; when all pairs of a non-empty input share one station id, it is \<^verbatim>\<open>episode_id\<close>
  if that id is \<^verbatim>\<open>onsen.ag\<close> or \<^verbatim>\<open>hibiki-radio.jp\<close> and \<^verbatim>\<open>datetime\<close> otherwise. A \<open>sort_by\<close>
  other than \<^verbatim>\<open>datetime\<close> and \<^verbatim>\<open>episode_id\<close> makes \<open>create\<close> fail with ValueError.
\<close>

theorem sort_key_selection:
  "(1 < card ((\<lambda>x. station_id (fst x)) ` set pairs) \<longrightarrow>
      select_sort_by None pairs = Inr ''datetime'')
   \<and> (pairs \<noteq> [] \<and> (\<forall>x\<in>set pairs. station_id (fst x) = sid) \<longrightarrow>
        select_sort_by None pairs =
          Inr (if sid \<in> {''onsen.ag'', ''hibiki-radio.jp''} then ''episode_id'' else ''datetime''))
   \<and> (s \<notin> {''datetime'', ''episode_id''} \<longrightarrow>
        create lib env base_url media_root pairs channel (Some s) from_oldest
            remove_duplicates
          = Inl ValueError)"
proof (intro conjI impI)
  assume "1 < card ((\<lambda>x. station_id (fst x)) ` set pairs)"
  then have "1 < length (remdups (map (\<lambda>x. station_id (fst x)) pairs))"
    by (simp add: length_remdups_card_conv)
  then show "select_sort_by None pairs = Inr ''datetime''"
    by (simp add: select_sort_by_def)
next
  assume h: "pairs \<noteq> [] \<and> (\<forall>x\<in>set pairs. station_id (fst x) = sid)"
  then have "\<forall>y\<in>set (map (\<lambda>x. station_id (fst x)) pairs). y = sid" by auto
  then have le: "length (remdups (map (\<lambda>x. station_id (fst x)) pairs)) \<le> 1"
    by (rule remdups_all_same)
  from h obtain x rest where p: "pairs = x # rest" by (cases pairs) auto
  with h have "station_id (fst x) = sid" by simp
  with le p show "select_sort_by None pairs =
          Inr (if sid \<in> {''onsen.ag'', ''hibiki-radio.jp''} then ''episode_id'' else ''datetime'')"
    unfolding select_sort_by_def by (simp del: remdups.simps)
next
  assume "s \<notin> {''datetime'', ''episode_id''}"
  then show "create lib env base_url media_root pairs channel (Some s) from_oldest
            remove_duplicates
          = Inl ValueError"
    by (simp add: create_def select_sort_by_def)
qed

theorem sort_key_selection_witness:
  "1 < card ((\<lambda>x. station_id (fst x)) `
        set [(ex_program ''show'' ''TBS'' 5 3, ''a''), (ex_program ''show'' ''QRR'' 6 4, ''b'')])
   \<and> select_sort_by None
        [(ex_program ''show'' ''TBS'' 5 3, ''a''), (ex_program ''show'' ''QRR'' 6 4, ''b'')]
      = Inr ''datetime''
   \<and> map (\<lambda>x. station_id (fst x))
        [(ex_program ''show'' ''onsen.ag'' 5 3, ''a''), (ex_program ''show'' ''onsen.ag'' 6 4, ''b'')]
      = [''onsen.ag'', ''onsen.ag'']
   \<and> select_sort_by None
        [(ex_program ''show'' ''onsen.ag'' 5 3, ''a''), (ex_program ''show'' ''onsen.ag'' 6 4, ''b'')]
      = Inr ''episode_id''
   \<and> map (\<lambda>x. station_id (fst x)) [(ex_program ''show'' ''TBS'' 5 3, ''a'')] = [''TBS'']
   \<and> select_sort_by None [(ex_program ''show'' ''TBS'' 5 3, ''a'')] = Inr ''datetime''
   \<and> ''name'' \<noteq> ''datetime'' \<and> ''name'' \<noteq> ''episode_id''
   \<and> create ex_feed_lib (ex_env [''media.mp3'']) ''https://x.example/'' [''data'']
        [(ex_program ''show'' ''TBS'' 5 3, ''a'')] None (Some ''name'') False True
      = Inl ValueError"
proof -
  have a: "1 < card ((\<lambda>x. station_id (fst x)) `
        set [(ex_program ''show'' ''TBS'' 5 3, ''a''), (ex_program ''show'' ''QRR'' 6 4, ''b'')])"
    by (simp add: ex_program_def)
  have b: "[(ex_program ''show'' ''onsen.ag'' 5 3, ''a''),
            (ex_program ''show'' ''onsen.ag'' 6 4, ''b'')] \<noteq> []
     \<and> (\<forall>x\<in>set [(ex_program ''show'' ''onsen.ag'' 5 3, ''a''),
                   (ex_program ''show'' ''onsen.ag'' 6 4, ''b'')].
           station_id (fst x) = ''onsen.ag'')"
    by (simp add: ex_program_def)
  have c: "[(ex_program ''show'' ''TBS'' 5 3, ''a'')] \<noteq> []
     \<and> (\<forall>x\<in>set [(ex_program ''show'' ''TBS'' 5 3, ''a'')]. station_id (fst x) = ''TBS'')"
    by (simp add: ex_program_def)
  have d: "''name'' \<notin> {''datetime'', ''episode_id''}"
    by simp
  from a b c d
    sort_key_selection
      [where pairs = "[(ex_program ''show'' ''TBS'' 5 3, ''a''),
                       (ex_program ''show'' ''QRR'' 6 4, ''b'')]"]
    sort_key_selection
      [where pairs = "[(ex_program ''show'' ''onsen.ag'' 5 3, ''a''),
                       (ex_program ''show'' ''onsen.ag'' 6 4, ''b'')]"
         and sid = "''onsen.ag''"]
    sort_key_selection
      [where pairs = "[(ex_program ''show'' ''TBS'' 5 3, ''a'')]" and sid = "''TBS''"
         and s = "''name''" and env = "ex_env [''media.mp3'']" and lib = ex_feed_lib
         and base_url = "''https://x.example/''" and media_root = "[''data'']"
         and channel = None and from_oldest = False and remove_duplicates = True]
  show ?thesis by (simp add: ex_program_def)
qed

subsection \<open>Sorting\<close>

lemma sorted_py_mset: "mset (sorted_py key r xs) = mset xs"
  by (simp add: sorted_py_def)

lemma sorted_py_sorted: "sorted (map key (if r then rev (sorted_py key r xs) else sorted_py key r xs))"
  by (simp add: sorted_py_def)

lemma sorted_py_stable: "filter (\<lambda>x. key x = k) (sorted_py key r xs) = filter (\<lambda>x. key x = k) xs"
  by (simp add: sorted_py_def sort_key_stable rev_filter [symmetric])

text \<open>
  C6. The sorted pairs are a rearrangement of the input, ascending in the chosen field when
  \<open>from_oldest\<close> is set and descending otherwise, and stable: the pairs with one and the
  same key value appear in their input order.
\<close>

theorem sort_pairs_stable:
  "mset (sort_pairs sort_by from_oldest pairs) = mset pairs
   \<and> (sort_by = ''datetime'' \<longrightarrow>
        sorted (map (\<lambda>x. datetime (fst x))
                  (if from_oldest then sort_pairs sort_by from_oldest pairs
                   else rev (sort_pairs sort_by from_oldest pairs)))
        \<and> (\<forall>k. filter (\<lambda>x. datetime (fst x) = k) (sort_pairs sort_by from_oldest pairs)
                  = filter (\<lambda>x. datetime (fst x) = k) pairs))
   \<and> (sort_by = ''episode_id'' \<longrightarrow>
        sorted (map (\<lambda>x. episode_id (fst x))
                  (if from_oldest then sort_pairs sort_by from_oldest pairs
                   else rev (sort_pairs sort_by from_oldest pairs)))
        \<and> (\<forall>k. filter (\<lambda>x. episode_id (fst x) = k) (sort_pairs sort_by from_oldest pairs)
                  = filter (\<lambda>x. episode_id (fst x) = k) pairs))"
  using sorted_py_sorted [of "\<lambda>x. datetime (fst x)" "\<not> from_oldest" pairs]
        sorted_py_sorted [of "\<lambda>x. episode_id (fst x)" "\<not> from_oldest" pairs]
  by (auto simp: sort_pairs_def sorted_py_mset sorted_py_stable)

theorem sort_pairs_stable_witness:
  "sort_pairs ''datetime'' False
     [(ex_program ''show'' ''TBS'' 5 3, ''a''), (ex_program ''show'' ''TBS'' 6 4, ''b''),
      (ex_program ''show'' ''TBS'' 5 8, ''c'')]
   = [(ex_program ''show'' ''TBS'' 6 4, ''b''), (ex_program ''show'' ''TBS'' 5 3, ''a''),
      (ex_program ''show'' ''TBS'' 5 8, ''c'')]
   \<and> sort_pairs ''datetime'' True
     [(ex_program ''show'' ''TBS'' 5 3, ''a''), (ex_program ''show'' ''TBS'' 6 4, ''b''),
      (ex_program ''show'' ''TBS'' 5 8, ''c'')]
   = [(ex_program ''show'' ''TBS'' 5 3, ''a''), (ex_program ''show'' ''TBS'' 5 8, ''c''),
      (ex_program ''show'' ''TBS'' 6 4, ''b'')]
   \<and> sorted (map (\<lambda>x. datetime (fst x))
       (rev [(ex_program ''show'' ''TBS'' 6 4, ''b''), (ex_program ''show'' ''TBS'' 5 3, ''a''),
             (ex_program ''show'' ''TBS'' 5 8, ''c'')]))
   \<and> filter (\<lambda>x. datetime (fst x) = 5)
       [(ex_program ''show'' ''TBS'' 6 4, ''b''), (ex_program ''show'' ''TBS'' 5 3, ''a''),
        (ex_program ''show'' ''TBS'' 5 8, ''c'')]
     = filter (\<lambda>x. datetime (fst x) = 5)
       [(ex_program ''show'' ''TBS'' 5 3, ''a''), (ex_program ''show'' ''TBS'' 6 4, ''b''),
        (ex_program ''show'' ''TBS'' 5 8, ''c'')]"
proof -
  have d: "sort_pairs ''datetime'' False
     [(ex_program ''show'' ''TBS'' 5 3, ''a''), (ex_program ''show'' ''TBS'' 6 4, ''b''),
      (ex_program ''show'' ''TBS'' 5 8, ''c'')]
   = [(ex_program ''show'' ''TBS'' 6 4, ''b''), (ex_program ''show'' ''TBS'' 5 3, ''a''),
      (ex_program ''show'' ''TBS'' 5 8, ''c'')]"
    by (simp add: sort_pairs_def sorted_py_def ex_program_def)
  have u: "sort_pairs ''datetime'' True
     [(ex_program ''show'' ''TBS'' 5 3, ''a''), (ex_program ''show'' ''TBS'' 6 4, ''b''),
      (ex_program ''show'' ''TBS'' 5 8, ''c'')]
   = [(ex_program ''show'' ''TBS'' 5 3, ''a''), (ex_program ''show'' ''TBS'' 5 8, ''c''),
      (ex_program ''show'' ''TBS'' 6 4, ''b'')]"
    by (simp add: sort_pairs_def sorted_py_def ex_program_def)
  from sort_pairs_stable
      [of "''datetime''" False
         "[(ex_program ''show'' ''TBS'' 5 3, ''a''), (ex_program ''show'' ''TBS'' 6 4, ''b''),
           (ex_program ''show'' ''TBS'' 5 8, ''c'')]"]
  have "sorted (map (\<lambda>x. datetime (fst x))
       (rev [(ex_program ''show'' ''TBS'' 6 4, ''b''), (ex_program ''show'' ''TBS'' 5 3, ''a''),
             (ex_program ''show'' ''TBS'' 5 8, ''c'')]))
     \<and> filter (\<lambda>x. datetime (fst x) = 5)
       [(ex_program ''show'' ''TBS'' 6 4, ''b''), (ex_program ''show'' ''TBS'' 5 3, ''a''),
        (ex_program ''show'' ''TBS'' 5 8, ''c'')]
     = filter (\<lambda>x. datetime (fst x) = 5)
       [(ex_program ''show'' ''TBS'' 5 3, ''a''), (ex_program ''show'' ''TBS'' 6 4, ''b''),
        (ex_program ''show'' ''TBS'' 5 8, ''c'')]"
    unfolding d by simp
  with d u show ?thesis by blast
qed

subsection \<open>The channel\<close>

lemma sorted_py_length: "length (sorted_py key r xs) = length xs"
  by (simp add: sorted_py_def)

lemma sort_pairs_length: "length (sort_pairs sort_by from_oldest pairs) = length pairs"
  by (simp add: sort_pairs_def sorted_py_length)

lemma remove_dups_Cons:
  "remove_dups (x # xs) =
     x # unique_pairs (Some (datetime (fst x))) (Some (episode_id (fst x))) xs"
  by (cases x) (simp add: remove_dups_def)

lemma final_pairs_hd:
  assumes "pairs \<noteq> []"
  shows "final_pairs sort_by from_oldest remove_duplicates pairs \<noteq> []"
    and "hd (final_pairs sort_by from_oldest remove_duplicates pairs)
           = hd (sort_pairs sort_by from_oldest pairs)"
proof -
  from assms have "length (sort_pairs sort_by from_oldest pairs) \<noteq> 0"
    by (simp add: sort_pairs_length)
  then obtain x rest where s: "sort_pairs sort_by from_oldest pairs = x # rest"
    by (cases "sort_pairs sort_by from_oldest pairs") auto
  show "final_pairs sort_by from_oldest remove_duplicates pairs \<noteq> []"
    by (simp add: final_pairs_def Let_def s remove_dups_Cons)
  show "hd (final_pairs sort_by from_oldest remove_duplicates pairs)
           = hd (sort_pairs sort_by from_oldest pairs)"
    by (simp add: final_pairs_def Let_def s remove_dups_Cons)
qed

lemma to_feed_generator_channel:
  "to_feed_generator lib ch = Inr fg \<Longrightarrow> feed_channel fg = ch"
  by (auto simp: to_feed_generator_def split: option.splits)

lemma add_entry_channel:
  "add_entry lib env base_url media_root pair fg = Inr fg' \<Longrightarrow> feed_channel fg' = feed_channel fg"
  by (auto simp: add_entry_def append_entry_def Let_def split: sum.splits option.splits)

lemma add_entries_channel:
  "add_entries lib env base_url media_root pairs fg = Inr fg'
     \<Longrightarrow> feed_channel fg' = feed_channel fg"
proof (induction pairs arbitrary: fg)
  case Nil
  then show ?case by simp
next
  case (Cons pair rest)
  then show ?case
    by (auto split: sum.splits dest: add_entry_channel)
qed

text \<open>
  C7 (as amended). For a non-empty input and no channel override, the channel is derived
  from one record: the last element of the pairs that remain after sorting and duplicate
  removal when \<open>from_oldest\<close> is set, and their first element otherwise. That first element
  is the first element of the sorted sequence, and without duplicate removal the remaining
  pairs are the sorted sequence itself.
\<close>

theorem channel_from_final_pairs:
  assumes "pairs \<noteq> []"
  shows "select_channel None from_oldest (final_pairs key from_oldest remove_duplicates pairs)
           = Inr (channel_from_program
                    (fst (if from_oldest
                          then last (final_pairs key from_oldest remove_duplicates pairs)
                          else hd (final_pairs key from_oldest remove_duplicates pairs))))
         \<and> (\<not> remove_duplicates \<longrightarrow>
               final_pairs key from_oldest remove_duplicates pairs
                 = sort_pairs key from_oldest pairs)
         \<and> hd (final_pairs key from_oldest remove_duplicates pairs)
             = hd (sort_pairs key from_oldest pairs)
         \<and> (select_sort_by sort_by pairs = Inr key
              \<and> create lib env base_url media_root pairs None sort_by from_oldest
                    remove_duplicates
                  = Inr feed \<longrightarrow>
             feed_channel feed =
               channel_from_program
                 (fst (if from_oldest
                       then last (final_pairs key from_oldest remove_duplicates pairs)
                       else hd (final_pairs key from_oldest remove_duplicates pairs))))"
proof -
  have ne: "final_pairs key from_oldest remove_duplicates pairs \<noteq> []"
    using assms by (rule final_pairs_hd(1))
  have sel: "select_channel None from_oldest (final_pairs key from_oldest remove_duplicates pairs)
           = Inr (channel_from_program
                    (fst (if from_oldest
                          then last (final_pairs key from_oldest remove_duplicates pairs)
                          else hd (final_pairs key from_oldest remove_duplicates pairs))))"
    using ne by (simp add: select_channel_def)
  have cr: "select_sort_by sort_by pairs = Inr key
              \<and> create lib env base_url media_root pairs None sort_by from_oldest
                    remove_duplicates
                  = Inr feed \<longrightarrow>
             feed_channel feed =
               channel_from_program
                 (fst (if from_oldest
                       then last (final_pairs key from_oldest remove_duplicates pairs)
                       else hd (final_pairs key from_oldest remove_duplicates pairs)))"
    using sel
    by (auto simp: create_def Let_def split: sum.splits
             dest!: add_entries_channel to_feed_generator_channel)
  show ?thesis
    using sel cr final_pairs_hd(2) [OF assms, of key from_oldest remove_duplicates]
    by (simp add: final_pairs_def)
qed

theorem channel_from_final_pairs_witness:
  "[(ex_program ''first'' ''TBS'' 1 1, ''a''), (ex_program ''second'' ''TBS'' 2 2, ''b'')] \<noteq> []
   \<and> select_channel None False
       (final_pairs ''datetime'' False True
          [(ex_program ''first'' ''TBS'' 1 1, ''a''), (ex_program ''second'' ''TBS'' 2 2, ''b'')])
     = Inr (channel_from_program (ex_program ''second'' ''TBS'' 2 2))"
proof -
  have ne: "[(ex_program ''first'' ''TBS'' 1 1, ''a''), (ex_program ''second'' ''TBS'' 2 2, ''b'')] \<noteq> []"
    by simp
  have s: "sort_pairs ''datetime'' False
        [(ex_program ''first'' ''TBS'' 1 1, ''a''), (ex_program ''second'' ''TBS'' 2 2, ''b'')]
      = [(ex_program ''second'' ''TBS'' 2 2, ''b''), (ex_program ''first'' ''TBS'' 1 1, ''a'')]"
    by (simp add: sort_pairs_def sorted_py_def ex_program_def)
  have f: "final_pairs ''datetime'' False True
        [(ex_program ''first'' ''TBS'' 1 1, ''a''), (ex_program ''second'' ''TBS'' 2 2, ''b'')]
      = [(ex_program ''second'' ''TBS'' 2 2, ''b''), (ex_program ''first'' ''TBS'' 1 1, ''a'')]"
    unfolding final_pairs_def s by (simp add: remove_dups_def ex_program_def)
  from channel_from_final_pairs [OF ne, of False "''datetime''" True] f
  show ?thesis by simp
qed

text \<open>
  C7 as stated fails for \<open>from_oldest\<close> with duplicate removal: of two pairs with the same
  datetime the second is removed, and the channel is derived from the first, which is not
  the last element of the sorted sequence.
\<close>

theorem channel_not_last_sorted_counterexample:
  "map_sum id feed_channel
     (create ex_feed_lib (ex_env [''media.mp3'']) ''https://x.example/'' [''data'']
        [(ex_program ''first'' ''TBS'' 5 3, ''a''), (ex_program ''second'' ''TBS'' 5 4, ''b'')]
        None None True True)
     = Inr (channel_from_program (ex_program ''first'' ''TBS'' 5 3))
   \<and> last (sort_pairs ''datetime'' True
        [(ex_program ''first'' ''TBS'' 5 3, ''a''), (ex_program ''second'' ''TBS'' 5 4, ''b'')])
     = (ex_program ''second'' ''TBS'' 5 4, ''b'')
   \<and> channel_from_program (ex_program ''first'' ''TBS'' 5 3)
     \<noteq> channel_from_program (ex_program ''second'' ''TBS'' 5 4)"
proof -
  have k: "select_sort_by None
        [(ex_program ''first'' ''TBS'' 5 3, ''a''), (ex_program ''second'' ''TBS'' 5 4, ''b'')]
      = Inr ''datetime''"
    by (simp add: select_sort_by_def ex_program_def)
  have s: "sort_pairs ''datetime'' True
        [(ex_program ''first'' ''TBS'' 5 3, ''a''), (ex_program ''second'' ''TBS'' 5 4, ''b'')]
      = [(ex_program ''first'' ''TBS'' 5 3, ''a''), (ex_program ''second'' ''TBS'' 5 4, ''b'')]"
    by (simp add: sort_pairs_def sorted_py_def ex_program_def)
  have f: "final_pairs ''datetime'' True True
        [(ex_program ''first'' ''TBS'' 5 3, ''a''), (ex_program ''second'' ''TBS'' 5 4, ''b'')]
      = [(ex_program ''first'' ''TBS'' 5 3, ''a'')]"
    unfolding final_pairs_def s by (simp add: remove_dups_def ex_program_def)
  have i: "\<not> isl (add_entry ex_feed_lib (ex_env [''media.mp3'']) ''https://x.example/'' [''data'']
                    (ex_program ''first'' ''TBS'' 5 3, ''a'') fg)" for fg
    by (simp add: feed_eval ex_eval)
  have t: "to_feed_generator ex_feed_lib (channel_from_program (ex_program ''first'' ''TBS'' 5 3))
      = Inr \<lparr>feed_channel = channel_from_program (ex_program ''first'' ''TBS'' 5 3),
             feed_tags = channel_tags (channel_from_program (ex_program ''first'' ''TBS'' 5 3)),
             feed_entries = []\<rparr>"
    by (simp add: to_feed_generator_def ex_feed_lib_def)
  have c: "channel_from_program (ex_program ''first'' ''TBS'' 5 3)
     \<noteq> channel_from_program (ex_program ''second'' ''TBS'' 5 4)"
    by (simp add: channel_from_program_def ex_program_def)
  have "map_sum id feed_channel
     (create ex_feed_lib (ex_env [''media.mp3'']) ''https://x.example/'' [''data'']
        [(ex_program ''first'' ''TBS'' 5 3, ''a''), (ex_program ''second'' ''TBS'' 5 4, ''b'')]
        None None True True)
     = Inr (channel_from_program (ex_program ''first'' ''TBS'' 5 3))"
    using i [of "\<lparr>feed_channel = channel_from_program (ex_program ''first'' ''TBS'' 5 3),
             feed_tags = channel_tags (channel_from_program (ex_program ''first'' ''TBS'' 5 3)),
             feed_entries = []\<rparr>"]
    by (auto simp: create_def k f t select_channel_def split: sum.splits dest: add_entry_channel)
  with c s show ?thesis by simp
qed

subsection \<open>A missing media file\<close>







subsection \<open>The publish date\<close>





end
